theory Spec2Isabelle
  imports Main
begin

section \<open>Strings of the JavaScript source\<close>

text \<open>
  JavaScript strings are modelled as \<^typ>\<open>string\<close>, compared by value as \<open>===\<close> and
  \<open>Array.prototype.includes\<close> compare them. Characters outside ASCII are written as
  their UTF-8 bytes. \<open>String.prototype.toLowerCase\<close> is modelled on the ASCII letters,
  which is all the drug database of the source contains.
\<close>

definition toLowerChar :: "char \<Rightarrow> char" where
  "toLowerChar c =
     (case map_of (zip ''ABCDEFGHIJKLMNOPQRSTUVWXYZ'' ''abcdefghijklmnopqrstuvwxyz'') c of
        None \<Rightarrow> c
      | Some l \<Rightarrow> l)"

definition toLowerCase :: "string \<Rightarrow> string" where
  "toLowerCase s = map toLowerChar s"

text \<open>\<open>startsWith\<close> and \<open>String.prototype.includes\<close> (substring search).\<close>

fun startsWith :: "string \<Rightarrow> string \<Rightarrow> bool" where
  "startsWith s [] = True"
| "startsWith [] (p # ps) = False"
| "startsWith (c # cs) (p # ps) = (c = p \<and> startsWith cs ps)"

fun includes_str :: "string \<Rightarrow> string \<Rightarrow> bool" where
  "includes_str [] p = (p = [])"
| "includes_str (c # cs) p = (startsWith (c # cs) p \<or> includes_str cs p)"


section \<open>The client-side router (App)\<close>

text \<open>
  \<^verbatim>\<open>
  function getPage(path) {
    if (path === "/scan") return "scan";
    if (path === "/drug-checker") return "drug-checker";
    if (path === "/schedule") return "schedule";
    if (path === "/vault") return "vault";
    if (path === "/multi-prescription") return "multi-prescription";
    return "home";
  }
  \<close>
\<close>

definition getPage :: "string \<Rightarrow> string" where
  "getPage path =
     (if path = ''/scan'' then ''scan''
      else if path = ''/drug-checker'' then ''drug-checker''
      else if path = ''/schedule'' then ''schedule''
      else if path = ''/vault'' then ''vault''
      else if path = ''/multi-prescription'' then ''multi-prescription''
      else ''home'')"

text \<open>The page identifiers that App renders a component for.\<close>

definition pageIds :: "string list" where
  "pageIds = [''home'', ''scan'', ''drug-checker'', ''schedule'', ''vault'', ''multi-prescription'']"

definition routedPaths :: "string list" where
  "routedPaths = [''/scan'', ''/drug-checker'', ''/schedule'', ''/vault'', ''/multi-prescription'']"


section \<open>The vault's compare selection (VaultPage)\<close>

text \<open>
  \<^verbatim>\<open>
  const [compareIds, setCompareIds] = useState([]);
  const toggleCompare = (id) => {
    if (compareIds.includes(id)) {
      setCompareIds(compareIds.filter((c) => c !== id));
    } else if (compareIds.length < 2) {
      setCompareIds([...compareIds, id]);
    }
  };
  \<close>
  The state is the list \<open>compareIds\<close>; the prescription ids are integers. The only other
  writer of the state is the banner's button, \<open>setCompareIds([])\<close>, shown while one or two
  prescriptions are selected.
\<close>

definition toggleCompare :: "int \<Rightarrow> int list \<Rightarrow> int list" where
  "toggleCompare ident compareIds =
     (if ident \<in> set compareIds then filter (\<lambda>c. c \<noteq> ident) compareIds
      else if length compareIds < 2 then compareIds @ [ident]
      else compareIds)"

datatype vault_event = Compare int | ClearCompare

fun vault_step :: "int list \<Rightarrow> vault_event \<Rightarrow> int list" where
  "vault_step compareIds (Compare ident) = toggleCompare ident compareIds"
| "vault_step compareIds ClearCompare =
     (if length compareIds = 2 \<or> length compareIds = 1 then [] else compareIds)"

definition vault_run :: "vault_event list \<Rightarrow> int list" where
  "vault_run es = foldl vault_step [] es"


section \<open>The drug interaction checker (DrugCheckerPage)\<close>

text \<open>
  The records the page shows once a check has been run, and the names the search box
  suggests: \<open>DEMO_INTERACTIONS\<close> and \<open>DRUG_DATABASE\<close> of the source.
\<close>

record interaction =
  drug1 :: string
  drug2 :: string
  severity :: string
  title :: string
  description :: string
  action :: string

definition DEMO_INTERACTIONS :: "interaction list" where
  "DEMO_INTERACTIONS =
     [\<lparr>drug1 = ''Metformin'', drug2 = ''Amlodipine'', severity = ''minor'',
       title = ''Minor Interaction'',
       description = ''Amlodipine may slightly increase blood sugar levels, potentially affecting Metformin's effectiveness in controlling diabetes. Monitor blood sugar regularly.'',
       action = ''Inform your doctor at next visit. No immediate action required.''\<rparr>,
      \<lparr>drug1 = ''Atorvastatin'', drug2 = ''Amlodipine'', severity = ''moderate'',
       title = ''Moderate Interaction'',
       description = ''Amlodipine can increase Atorvastatin blood levels by about 18%, potentially increasing the risk of muscle pain or weakness (myopathy). This combination is used but requires monitoring.'',
       action = ''Watch for unexplained muscle pain, tenderness, or weakness. Report to your doctor if symptoms appear.''\<rparr>,
      \<lparr>drug1 = ''Pantoprazole'', drug2 = ''Metformin'', severity = ''minor'',
       title = ''Minor Interaction'',
       description = ''Pantoprazole may slightly increase Metformin plasma levels. In patients with normal kidney function, this is generally not clinically significant.'',
       action = ''No action needed for most patients. Kidney function monitoring advised for elderly patients.''\<rparr>]"

definition DRUG_DATABASE :: "string list" where
  "DRUG_DATABASE =
     [''Metformin'', ''Amlodipine'', ''Pantoprazole'', ''Atorvastatin'', ''Aspirin'',
      ''Losartan'', ''Ramipril'', ''Glimepiride'', ''Clopidogrel'', ''Warfarin'',
      ''Ciprofloxacin'', ''Azithromycin'', ''Diazepam'', ''Omeprazole'', ''Paracetamol'']"

text \<open>
  The component's state, one field per \<open>useState\<close>:
  \<^verbatim>\<open>
  const [drugs, setDrugs] = useState(["Metformin", "Amlodipine", "Pantoprazole", "Atorvastatin"]);
  const [input, setInput] = useState("");
  const [showSuggestions, setShowSuggestions] = useState(false);
  const [checked, setChecked] = useState(false);
  \<close>
\<close>

record checker_state =
  drugs :: "string list"
  input :: string
  showSuggestions :: bool
  checked :: bool

definition initial_checker :: checker_state where
  "initial_checker =
     \<lparr>drugs = [''Metformin'', ''Amlodipine'', ''Pantoprazole'', ''Atorvastatin''],
      input = [], showSuggestions = False, checked = False\<rparr>"

text \<open>
  \<^verbatim>\<open>
  const suggestions = DRUG_DATABASE.filter(
    (d) => d.toLowerCase().includes(input.toLowerCase()) && !drugs.includes(d) && input.length > 0
  );
  const addDrug = (name) => {
    if (!drugs.includes(name)) setDrugs([...drugs, name]);
    setInput("");
    setShowSuggestions(false);
    setChecked(false);
  };
  const removeDrug = (name) => {
    setDrugs(drugs.filter((d) => d !== name));
    setChecked(false);
  };
  \<close>
\<close>

definition suggestions :: "checker_state \<Rightarrow> string list" where
  "suggestions s =
     filter (\<lambda>d. includes_str (toLowerCase d) (toLowerCase (input s)) \<and>
                 d \<notin> set (drugs s) \<and> length (input s) > 0)
       DRUG_DATABASE"

definition addDrug :: "string \<Rightarrow> checker_state \<Rightarrow> checker_state" where
  "addDrug name s =
     s\<lparr>drugs := (if name \<notin> set (drugs s) then drugs s @ [name] else drugs s),
       input := [], showSuggestions := False, checked := False\<rparr>"

definition removeDrug :: "string \<Rightarrow> checker_state \<Rightarrow> checker_state" where
  "removeDrug name s = s\<lparr>drugs := filter (\<lambda>d. d \<noteq> name) (drugs s), checked := False\<rparr>"

text \<open>
  The user's actions on the page, each with the handler the JSX binds to it:
  \<^item> \<open>Change v\<close>: the input's \<open>onChange\<close>, \<open>setInput(v); setShowSuggestions(true)\<close>;
  \<^item> \<open>KeyEnter\<close>: \<open>onKeyDown\<close> with Enter, \<open>input && addDrug(input)\<close>;
  \<^item> \<open>ClickSuggestion d\<close>: a suggestion item, rendered for each element of \<open>suggestions\<close>
    while \<open>showSuggestions\<close> holds, \<open>addDrug(d)\<close>;
  \<^item> \<open>ClickRemove d\<close>: the remove button of the chip of \<open>d\<close>, one chip per element of
    \<open>drugs\<close>, \<open>removeDrug(d)\<close>;
  \<^item> \<open>ClickCheck\<close>: the check button, \<open>disabled={drugs.length < 2}\<close>, \<open>setChecked(true)\<close>.
  An action on an element that is not rendered, or on the disabled button, changes nothing.
\<close>

datatype checker_event =
  Change string | KeyEnter | ClickSuggestion string | ClickRemove string | ClickCheck

fun checker_step :: "checker_state \<Rightarrow> checker_event \<Rightarrow> checker_state" where
  "checker_step s (Change v) = s\<lparr>input := v, showSuggestions := True\<rparr>"
| "checker_step s KeyEnter = (if input s \<noteq> [] then addDrug (input s) s else s)"
| "checker_step s (ClickSuggestion d) =
     (if showSuggestions s \<and> d \<in> set (suggestions s) then addDrug d s else s)"
| "checker_step s (ClickRemove d) = (if d \<in> set (drugs s) then removeDrug d s else s)"
| "checker_step s ClickCheck = (if length (drugs s) < 2 then s else s\<lparr>checked := True\<rparr>)"

definition checker_run :: "checker_event list \<Rightarrow> checker_state" where
  "checker_run es = foldl checker_step initial_checker es"

text \<open>
  What the page renders below the input section: nothing unless \<open>checked\<close>, and then the
  three summary cards with the literal counts 0, 1 and 2, one card per element of
  \<open>DEMO_INTERACTIONS\<close>, and the banner "No life-threatening (critical) interactions
  found in this combination".
\<close>

record results_view =
  criticalCount :: nat
  moderateCount :: nat
  minorCount :: nat
  cards :: "interaction list"
  safeBanner :: bool

definition results :: "checker_state \<Rightarrow> results_view option" where
  "results s =
     (if checked s
      then Some \<lparr>criticalCount = 0, moderateCount = 1, minorCount = 2,
                 cards = DEMO_INTERACTIONS, safeBanner = True\<rparr>
      else None)"

text \<open>The interaction cards and the banner on the screen, whether or not results are shown.\<close>

definition shownCards :: "checker_state \<Rightarrow> interaction list" where
  "shownCards s = (case results s of None \<Rightarrow> [] | Some v \<Rightarrow> cards v)"

definition bannerShown :: "checker_state \<Rightarrow> bool" where
  "bannerShown s = (case results s of None \<Rightarrow> False | Some v \<Rightarrow> safeBanner v)"

text \<open>The number of records of a list that carry a given severity label.\<close>

definition tierCount :: "string \<Rightarrow> interaction list \<Rightarrow> nat" where
  "tierCount label rs = length (filter (\<lambda>r. severity r = label) rs)"

text \<open>
  A run of the page that also logs, beside the state, the drug list as it was at the last
  press of the enabled check button. The log is not part of the component: it is what
  "the list the shown results were requested for" means.
\<close>

fun logged_step ::
  "checker_state \<times> string list option \<Rightarrow> checker_event \<Rightarrow> checker_state \<times> string list option"
where
  "logged_step (s, lastChecked) e =
     (checker_step s e,
      if e = ClickCheck \<and> \<not> length (drugs s) < 2 then Some (drugs s) else lastChecked)"

definition logged_run :: "checker_event list \<Rightarrow> checker_state \<times> string list option" where
  "logged_run es = foldl logged_step (initial_checker, None) es"

text \<open>
  The natural key of a drug in the specification's words: the name, trimmed and
  case-folded. \<open>trim\<close> removes the ASCII white space at both ends.
\<close>

definition isSpace :: "char \<Rightarrow> bool" where
  "isSpace c = (c \<in> set [CHR 0x20, CHR 0x09, CHR 0x0A, CHR 0x0B, CHR 0x0C, CHR 0x0D])"

definition trim :: "string \<Rightarrow> string" where
  "trim s = rev (dropWhile isSpace (rev (dropWhile isSpace s)))"

definition spec_key :: "string \<Rightarrow> string" where
  "spec_key name = toLowerCase (trim name)"


section \<open>The multi-prescription page (MultiPrescriptionPage)\<close>

text \<open>
  The constants of the page. Field names of the source that two records share are told
  apart by a prefix: \<open>cross_drug1\<close>, \<open>cross_drug2\<close>, \<open>cross_severity\<close> and \<open>cross_action\<close>
  are \<open>drug1\<close>, \<open>drug2\<close>, \<open>severity\<close> and \<open>action\<close> of an element of
  \<open>CROSS_INTERACTIONS\<close>; \<open>rx_id\<close> and \<open>rx_color\<close> are \<open>id\<close> and \<open>color\<close> of a prescription;
  \<open>entry_name\<close>, \<open>entry_dose\<close> and \<open>entry_color\<close> are \<open>name\<close>, \<open>dose\<close> and \<open>color\<close> of an
  entry of \<open>MERGED_SCHEDULE\<close>. A \<open>flag\<close> of \<open>null\<close> is \<open>None\<close>.
\<close>

record medicine =
  name :: string
  dose :: string
  freq :: string
  slot :: string

record prescription =
  rx_id :: int
  doctor :: string
  specialty :: string
  date :: string
  rx_color :: string
  medicines :: "medicine list"

definition PRESCRIPTIONS :: "prescription list" where
  "PRESCRIPTIONS =
     [\<lparr>rx_id = 1, doctor = ''Dr. Ramesh Reddy'', specialty = ''Cardiologist'',
       date = ''Feb 25, 2026'', rx_color = ''#00c8ff'',
       medicines =
         [\<lparr>name = ''Amlodipine'', dose = ''5mg'', freq = ''OD'', slot = ''Night''\<rparr>,
          \<lparr>name = ''Atorvastatin'', dose = ''10mg'', freq = ''OD'', slot = ''Night''\<rparr>,
          \<lparr>name = ''Clopidogrel'', dose = ''75mg'', freq = ''OD'', slot = ''Morning''\<rparr>]\<rparr>,
      \<lparr>rx_id = 2, doctor = ''Dr. Sunita Sharma'', specialty = ''Endocrinologist'',
       date = ''Feb 20, 2026'', rx_color = ''#00ffb4'',
       medicines =
         [\<lparr>name = ''Metformin'', dose = ''500mg'', freq = ''BD'', slot = ''Morning + Night''\<rparr>,
          \<lparr>name = ''Glimepiride'', dose = ''1mg'', freq = ''OD'', slot = ''Morning''\<rparr>,
          \<lparr>name = ''Pantoprazole'', dose = ''40mg'', freq = ''OD'', slot = ''Morning''\<rparr>]\<rparr>]"

record cross_interaction =
  cross_drug1 :: string
  rx1 :: string
  cross_drug2 :: string
  rx2 :: string
  cross_severity :: string
  desc :: string
  cross_action :: string

definition CROSS_INTERACTIONS :: "cross_interaction list" where
  "CROSS_INTERACTIONS =
     [\<lparr>cross_drug1 = ''Clopidogrel'', rx1 = ''Cardiologist'',
       cross_drug2 = ''Pantoprazole'', rx2 = ''Endocrinologist'',
       cross_severity = ''moderate'',
       desc = ''Pantoprazole reduces the antiplatelet effect of Clopidogrel by inhibiting CYP2C19. This combination may increase cardiac risk.'',
       cross_action = ''Inform your cardiologist about the Pantoprazole prescription. An alternative PPI like Rabeprazole may be used.''\<rparr>]"

record schedule_entry =
  entry_name :: string
  entry_dose :: string
  entry_color :: string
  source :: string
  flag :: "string option"

text \<open>The warning sign U+26A0 U+FE0F of the flagged entry, in UTF-8.\<close>

definition warning_sign :: string where
  "warning_sign = [CHR 0xE2, CHR 0x9A, CHR 0xA0, CHR 0xEF, CHR 0xB8, CHR 0x8F]"

text \<open>
  \<open>MERGED_SCHEDULE\<close> is an object literal with the keys Morning and Night, in this order:
  an association list, as \<open>Object.entries\<close> lists it.
\<close>

definition MERGED_SCHEDULE :: "(string \<times> schedule_entry list) list" where
  "MERGED_SCHEDULE =
     [(''Morning'',
       [\<lparr>entry_name = ''Clopidogrel'', entry_dose = ''75mg'', entry_color = ''#00c8ff'',
         source = ''Dr. Ramesh Reddy'', flag = None\<rparr>,
        \<lparr>entry_name = ''Metformin'', entry_dose = ''500mg'', entry_color = ''#00ffb4'',
         source = ''Dr. Sunita Sharma'', flag = None\<rparr>,
        \<lparr>entry_name = ''Glimepiride'', entry_dose = ''1mg'', entry_color = ''#00ffb4'',
         source = ''Dr. Sunita Sharma'', flag = None\<rparr>,
        \<lparr>entry_name = ''Pantoprazole'', entry_dose = ''40mg'', entry_color = ''#00ffb4'',
         source = ''Dr. Sunita Sharma'', flag = Some warning_sign\<rparr>]),
      (''Night'',
       [\<lparr>entry_name = ''Amlodipine'', entry_dose = ''5mg'', entry_color = ''#00c8ff'',
         source = ''Dr. Ramesh Reddy'', flag = None\<rparr>,
        \<lparr>entry_name = ''Atorvastatin'', entry_dose = ''10mg'', entry_color = ''#00c8ff'',
         source = ''Dr. Ramesh Reddy'', flag = None\<rparr>,
        \<lparr>entry_name = ''Metformin'', entry_dose = ''500mg'', entry_color = ''#00ffb4'',
         source = ''Dr. Sunita Sharma'', flag = None\<rparr>])]"




definition mergedSlots :: "string \<Rightarrow> (string \<times> schedule_entry list) list" where
  "mergedSlots state = (if state = ''results'' then MERGED_SCHEDULE else [])"


text \<open>
  A row of the unified schedule shows its warning marker when the entry's flag is truthy
  (\<open>med.flag && ...\<close>): neither \<open>null\<close> nor the empty string.
\<close>

definition conflictMarked :: "schedule_entry \<Rightarrow> bool" where
  "conflictMarked e = (case flag e of None \<Rightarrow> False | Some f \<Rightarrow> f \<noteq> [])"

text \<open>\<open>MERGED_SCHEDULE[slotName]\<close>, empty for a slot the object does not have.\<close>

definition slotEntries :: "string \<Rightarrow> schedule_entry list" where
  "slotEntries slotName = (case map_of MERGED_SCHEDULE slotName of None \<Rightarrow> [] | Some es \<Rightarrow> es)"

text \<open>The drugs that take part in an element of \<open>CROSS_INTERACTIONS\<close>.\<close>

definition crossParticipants :: "string list" where
  "crossParticipants = concat (map (\<lambda>i. [cross_drug1 i, cross_drug2 i]) CROSS_INTERACTIONS)"

subsection \<open>The specification's provenance and merge, for comparison\<close>



text \<open>
  The merge in the specification's words: for each prescription, for each of its slot
  assignments, an entry tagged with that prescription's source into the slot's bucket,
  with no deduplication across prescriptions. A medicine is assigned to a slot when the
  slot's name occurs in its \<open>slot\<close> string, so "Morning + Night" assigns to both. The
  flag is left unset.
\<close>

definition spec_merge :: "prescription list \<Rightarrow> string \<Rightarrow> schedule_entry list" where
  "spec_merge rxs slotName =
     concat (map (\<lambda>rx.
       map (\<lambda>m. \<lparr>entry_name = name m, entry_dose = dose m, entry_color = rx_color rx,
                  source = doctor rx, flag = None\<rparr>)
         (filter (\<lambda>m. includes_str (slot m) slotName) (medicines rx))) rxs)"


section \<open>Properties of the router\<close>

lemma pageIds_members:
  "''home'' \<in> set pageIds" "''scan'' \<in> set pageIds" "''drug-checker'' \<in> set pageIds"
  "''schedule'' \<in> set pageIds" "''vault'' \<in> set pageIds"
  "''multi-prescription'' \<in> set pageIds"
  by (simp_all add: pageIds_def)

lemma getPage_in_pageIds: "getPage p \<in> set pageIds"
  unfolding getPage_def using pageIds_members by simp

lemma pageIds_in_range:
  "''home'' \<in> range getPage" "''scan'' \<in> range getPage"
  "''drug-checker'' \<in> range getPage" "''schedule'' \<in> range getPage"
  "''vault'' \<in> range getPage" "''multi-prescription'' \<in> range getPage"
proof -
  show "''home'' \<in> range getPage"
    by (rule range_eqI [where x = "''/''"]) (simp add: getPage_def)
  show "''scan'' \<in> range getPage"
    by (rule range_eqI [where x = "''/scan''"]) (simp add: getPage_def)
  show "''drug-checker'' \<in> range getPage"
    by (rule range_eqI [where x = "''/drug-checker''"]) (simp add: getPage_def)
  show "''schedule'' \<in> range getPage"
    by (rule range_eqI [where x = "''/schedule''"]) (simp add: getPage_def)
  show "''vault'' \<in> range getPage"
    by (rule range_eqI [where x = "''/vault''"]) (simp add: getPage_def)
  show "''multi-prescription'' \<in> range getPage"
    by (rule range_eqI [where x = "''/multi-prescription''"]) (simp add: getPage_def)
qed

text \<open>
  Claim C10. The router is total with \<open>home\<close> as its default: for every path, \<open>getPage\<close>
  returns one of the six page identifiers, each of the six is returned for some path, and
  every path other than \<open>/scan\<close>, \<open>/drug-checker\<close>, \<open>/schedule\<close>, \<open>/vault\<close> and
  \<open>/multi-prescription\<close> maps to \<open>home\<close>.
\<close>

theorem getPage_total_default_home:
  "getPage p \<in> set pageIds \<and> length pageIds = 6 \<and> distinct pageIds \<and>
   range getPage = set pageIds \<and>
   (p \<notin> set routedPaths \<longrightarrow> getPage p = ''home'')"
proof -
  have sub: "set pageIds \<subseteq> range getPage"
    unfolding pageIds_def using pageIds_in_range by simp
  have sup: "range getPage \<subseteq> set pageIds"
    using getPage_in_pageIds by blast
  from sup sub have rng: "range getPage = set pageIds" by (rule equalityI)
  have dflt: "p \<notin> set routedPaths \<longrightarrow> getPage p = ''home''"
    by (simp add: routedPaths_def getPage_def)
  have len: "length pageIds = 6" by (simp add: pageIds_def)
  have dist: "distinct pageIds" by (simp add: pageIds_def)
  from getPage_in_pageIds rng dflt len dist show ?thesis by (intro conjI)
qed

theorem getPage_total_default_home_witness:
  "''/unknown/url'' \<notin> set routedPaths \<and> getPage ''/unknown/url'' = ''home'' \<and>
   getPage ''/vault'' = ''vault''"
proof -
  have h: "''/unknown/url'' \<notin> set routedPaths" by (simp add: routedPaths_def)
  from getPage_total_default_home [of "''/unknown/url''"] h
  have "getPage ''/unknown/url'' = ''home''" by blast
  with h show ?thesis by (simp add: getPage_def)
qed


section \<open>Properties of the compare selection\<close>

lemma toggleCompare_inv:
  "length ids \<le> 2 \<Longrightarrow> distinct ids \<Longrightarrow>
   length (toggleCompare i ids) \<le> 2 \<and> distinct (toggleCompare i ids)"
  by (auto simp: toggleCompare_def intro: le_trans [OF length_filter_le])

lemma vault_step_inv:
  "length ids \<le> 2 \<and> distinct ids \<Longrightarrow>
   length (vault_step ids e) \<le> 2 \<and> distinct (vault_step ids e)"
  by (cases e) (simp_all add: toggleCompare_inv)

lemma vault_foldl_inv:
  "length ids \<le> 2 \<and> distinct ids \<Longrightarrow>
   length (foldl vault_step ids es) \<le> 2 \<and> distinct (foldl vault_step ids es)"
proof (induction es arbitrary: ids)
  case Nil
  then show ?case by simp
next
  case (Cons e es)
  from vault_step_inv [OF Cons.prems] Cons.IH show ?case by simp
qed

text \<open>
  Claim C9. The compare selection never holds more than two prescriptions and never holds
  duplicates: this is true of every state reached from the empty selection by presses of
  Compare and of the banner's button. \<open>toggleCompare\<close> removes the id if it is selected,
  appends it when it is not and fewer than two are selected, and changes nothing when two
  other prescriptions are selected.
\<close>

theorem compare_selection_bounded_distinct:
  "length (vault_run es) \<le> 2 \<and> distinct (vault_run es) \<and>
   (i \<in> set ids \<longrightarrow> toggleCompare i ids = filter (\<lambda>c. c \<noteq> i) ids \<and>
      i \<notin> set (toggleCompare i ids)) \<and>
   (i \<notin> set ids \<and> length ids < 2 \<longrightarrow> toggleCompare i ids = ids @ [i]) \<and>
   (i \<notin> set ids \<and> \<not> length ids < 2 \<longrightarrow> toggleCompare i ids = ids)"
proof -
  have "length (vault_run es) \<le> 2 \<and> distinct (vault_run es)"
    unfolding vault_run_def by (rule vault_foldl_inv) simp
  moreover have "i \<in> set ids \<longrightarrow> toggleCompare i ids = filter (\<lambda>c. c \<noteq> i) ids \<and>
      i \<notin> set (toggleCompare i ids)"
    by (simp add: toggleCompare_def)
  moreover have "i \<notin> set ids \<and> length ids < 2 \<longrightarrow> toggleCompare i ids = ids @ [i]"
    by (simp add: toggleCompare_def)
  moreover have "i \<notin> set ids \<and> \<not> length ids < 2 \<longrightarrow> toggleCompare i ids = ids"
    by (simp add: toggleCompare_def)
  ultimately show ?thesis by blast
qed

theorem compare_selection_bounded_distinct_witness:
  "vault_run [Compare 1, Compare 2, Compare 3, Compare 1, Compare 3] = [2, 3] \<and>
   (1::int) \<in> set [1, 2] \<and> toggleCompare 1 [1, 2] = [2] \<and>
   (3::int) \<notin> set [1] \<and> length [1::int] < 2 \<and> toggleCompare 3 [1] = [1, 3] \<and>
   (3::int) \<notin> set [1, 2] \<and> \<not> length [1::int, 2] < 2 \<and> toggleCompare 3 [1, 2] = [1, 2]"
proof -
  have run: "vault_run [Compare 1, Compare 2, Compare 3, Compare 1, Compare 3] = [2, 3]"
    by (simp add: vault_run_def toggleCompare_def)
  have a: "(1::int) \<in> set [1, 2]" by simp
  have b: "(3::int) \<notin> set [1] \<and> length [1::int] < 2" by simp
  have c: "(3::int) \<notin> set [1, 2] \<and> \<not> length [1::int, 2] < 2" by simp
  from compare_selection_bounded_distinct [of "[]" 1 "[1, 2]"] a
  have r1: "toggleCompare 1 [1, 2] = [2]" by simp
  from compare_selection_bounded_distinct [of "[]" 3 "[1]"] b
  have r2: "toggleCompare 3 [1] = [1, 3]" by simp
  from compare_selection_bounded_distinct [of "[]" 3 "[1, 2]"] c
  have r3: "toggleCompare 3 [1, 2] = [1, 2]" by simp
  from run a b c r1 r2 r3 show ?thesis by blast
qed


section \<open>Properties of the drug interaction checker\<close>

lemma checker_run_snoc: "checker_run (es @ [e]) = checker_step (checker_run es) e"
  by (simp add: checker_run_def)

lemma checker_run_Nil: "checker_run [] = initial_checker"
  by (simp add: checker_run_def)

lemma checker_step_checked:
  "checked (checker_step s e) \<Longrightarrow>
   drugs (checker_step s e) = drugs s \<and> (checked s \<or> (e = ClickCheck \<and> 2 \<le> length (drugs s)))"
  by (cases e) (auto simp: addDrug_def removeDrug_def split: if_splits)

lemma checker_step_distinct:
  "distinct (drugs s) \<Longrightarrow> distinct (drugs (checker_step s e))"
  by (cases e) (auto simp: addDrug_def removeDrug_def)

lemma checked_needs_two: "checked (checker_run es) \<Longrightarrow> 2 \<le> length (drugs (checker_run es))"
proof (induction es rule: rev_induct)
  case Nil
  then show ?case by (simp add: checker_run_Nil initial_checker_def)
next
  case (snoc e es)
  from snoc.prems have c: "checked (checker_step (checker_run es) e)"
    by (simp add: checker_run_snoc)
  from checker_step_checked [OF c] snoc.IH show ?case
    by (auto simp: checker_run_snoc)
qed

lemma checker_run_distinct: "distinct (drugs (checker_run es))"
proof (induction es rule: rev_induct)
  case Nil
  show ?case by (simp add: checker_run_Nil initial_checker_def)
next
  case (snoc e es)
  then show ?case by (simp add: checker_run_snoc checker_step_distinct)
qed

lemma results_unchecked: "\<not> checked s \<Longrightarrow> results s = None"
  by (simp add: results_def)

lemma tierCount_demo:
  "tierCount ''critical'' DEMO_INTERACTIONS = 0"
  "tierCount ''moderate'' DEMO_INTERACTIONS = 1"
  "tierCount ''minor'' DEMO_INTERACTIONS = 2"
  "tierCount ''unknown'' DEMO_INTERACTIONS = 0"
  by (simp_all add: tierCount_def DEMO_INTERACTIONS_def)

lemma logged_run_snoc: "logged_run (es @ [e]) = logged_step (logged_run es) e"
  by (simp add: logged_run_def)

lemma logged_run_inv:
  "fst (logged_run es) = checker_run es \<and>
   (checked (checker_run es) \<longrightarrow> snd (logged_run es) = Some (drugs (checker_run es)))"
proof (induction es rule: rev_induct)
  case Nil
  show ?case by (simp add: logged_run_def checker_run_def initial_checker_def)
next
  case (snoc e es)
  obtain s l where sl: "logged_run es = (s, l)" by (cases "logged_run es")
  with snoc.IH have s: "s = checker_run es" and l: "checked s \<longrightarrow> l = Some (drugs s)"
    by simp_all
  have f: "fst (logged_run (es @ [e])) = checker_run (es @ [e])"
    by (simp add: logged_run_snoc checker_run_snoc sl s)
  have "checked (checker_step s e) \<longrightarrow>
        snd (logged_step (s, l) e) = Some (drugs (checker_step s e))"
  proof
    assume c: "checked (checker_step s e)"
    from checker_step_checked [OF c] l show
      "snd (logged_step (s, l) e) = Some (drugs (checker_step s e))"
      by (cases e) (auto simp: addDrug_def removeDrug_def split: if_splits)
  qed
  with f show ?case by (simp add: logged_run_snoc checker_run_snoc sl s)
qed


text \<open>
  Claim C1. Once a check has been run the results output, that is the severity summary
  (0 critical, 1 moderate, 2 minor), the list of interaction records (the three
  \<open>DEMO_INTERACTIONS\<close>) and the banner, is the same whatever the drug list holds: two
  states that both show results show the same results, and pressing Check on any two
  drug lists of at least two drugs gives the same output.
\<close>

theorem results_independent_of_drugs:
  "(checked s1 \<longrightarrow>
      results s1 = Some \<lparr>criticalCount = 0, moderateCount = 1, minorCount = 2,
                         cards = DEMO_INTERACTIONS, safeBanner = True\<rparr>) \<and>
   (checked s1 \<and> checked s2 \<longrightarrow> results s1 = results s2 \<and> shownCards s1 = shownCards s2) \<and>
   (2 \<le> length (drugs s1) \<and> 2 \<le> length (drugs s2) \<longrightarrow>
      results (checker_step s1 ClickCheck) = results (checker_step s2 ClickCheck))"
  by (simp add: results_def shownCards_def)

theorem results_independent_of_drugs_witness:
  "drugs (checker_run [ClickCheck]) =
     [''Metformin'', ''Amlodipine'', ''Pantoprazole'', ''Atorvastatin''] \<and>
   drugs (checker_run [ClickRemove ''Metformin'', Change ''warf'',
                       ClickSuggestion ''Warfarin'', ClickCheck]) =
     [''Amlodipine'', ''Pantoprazole'', ''Atorvastatin'', ''Warfarin''] \<and>
   checked (checker_run [ClickCheck]) \<and>
   checked (checker_run [ClickRemove ''Metformin'', Change ''warf'',
                         ClickSuggestion ''Warfarin'', ClickCheck]) \<and>
   results (checker_run [ClickCheck]) =
     results (checker_run [ClickRemove ''Metformin'', Change ''warf'',
                           ClickSuggestion ''Warfarin'', ClickCheck]) \<and>
   map drug1 (shownCards (checker_run [ClickCheck])) =
     [''Metformin'', ''Atorvastatin'', ''Pantoprazole''] \<and>
   2 \<le> length (drugs initial_checker) \<and>
   2 \<le> length (drugs (removeDrug ''Metformin'' initial_checker)) \<and>
   results (checker_step initial_checker ClickCheck) =
     results (checker_step (removeDrug ''Metformin'' initial_checker) ClickCheck)"
proof -
  let ?a = "checker_run [ClickCheck]"
  let ?b = "checker_run [ClickRemove ''Metformin'', Change ''warf'',
                         ClickSuggestion ''Warfarin'', ClickCheck]"
  have da: "drugs ?a = [''Metformin'', ''Amlodipine'', ''Pantoprazole'', ''Atorvastatin'']"
    by code_simp
  have db: "drugs ?b = [''Amlodipine'', ''Pantoprazole'', ''Atorvastatin'', ''Warfarin'']"
    by code_simp
  have ca: "checked ?a" by code_simp
  have cb: "checked ?b" by code_simp
  from results_independent_of_drugs [of ?a ?b] ca cb
  have eq: "results ?a = results ?b" by blast
  have sc: "map drug1 (shownCards ?a) = [''Metformin'', ''Atorvastatin'', ''Pantoprazole'']"
    by code_simp
  have la: "2 \<le> length (drugs initial_checker)"
    by (simp add: initial_checker_def)
  have lb: "2 \<le> length (drugs (removeDrug ''Metformin'' initial_checker))"
    by (simp add: initial_checker_def removeDrug_def)
  from results_independent_of_drugs
         [of initial_checker "removeDrug ''Metformin'' initial_checker"] la lb
  have pr: "results (checker_step initial_checker ClickCheck) =
     results (checker_step (removeDrug ''Metformin'' initial_checker) ClickCheck)"
    by blast
  from da db ca cb eq sc la lb pr show ?thesis by (intro conjI)
qed

text \<open>
  Claim C2. For every result the page displays, the safe banner is shown if and only if
  the displayed critical count is zero and no displayed record is of the unknown tier;
  the displayed counts are the numbers of displayed records of each tier.
\<close>

theorem safe_banner_iff_no_critical_no_unknown:
  "results s = Some v \<Longrightarrow>
   safeBanner v = (criticalCount v = 0 \<and> tierCount ''unknown'' (cards v) = 0) \<and>
   criticalCount v = tierCount ''critical'' (cards v) \<and>
   moderateCount v = tierCount ''moderate'' (cards v) \<and>
   minorCount v = tierCount ''minor'' (cards v)"
proof -
  assume r: "results s = Some v"
  then have v: "v = \<lparr>criticalCount = 0, moderateCount = 1, minorCount = 2,
                      cards = DEMO_INTERACTIONS, safeBanner = True\<rparr>"
    by (simp add: results_def split: if_splits)
  show ?thesis unfolding v by (simp add: tierCount_demo)
qed

theorem safe_banner_iff_no_critical_no_unknown_witness:
  "results (checker_run [ClickCheck]) =
     Some \<lparr>criticalCount = 0, moderateCount = 1, minorCount = 2,
           cards = DEMO_INTERACTIONS, safeBanner = True\<rparr> \<and>
   tierCount ''critical'' DEMO_INTERACTIONS = 0 \<and>
   tierCount ''unknown'' DEMO_INTERACTIONS = 0"
proof -
  have c: "checked (checker_run [ClickCheck])" by code_simp
  then have r: "results (checker_run [ClickCheck]) =
     Some \<lparr>criticalCount = 0, moderateCount = 1, minorCount = 2,
           cards = DEMO_INTERACTIONS, safeBanner = True\<rparr>"
    by (simp add: results_def)
  from safe_banner_iff_no_critical_no_unknown [OF r] r show ?thesis by simp
qed

text \<open>
  Claim C3. With fewer than two drugs in the list a check cannot run: the check button is
  disabled, so pressing it changes nothing, and in every state the page can reach no
  results are shown, that is no interaction record and no safe banner.
\<close>

theorem no_check_below_two_drugs:
  "length (drugs (checker_run es)) < 2 \<Longrightarrow>
   checker_step (checker_run es) ClickCheck = checker_run es \<and>
   \<not> checked (checker_run es) \<and>
   results (checker_run es) = None \<and>
   shownCards (checker_run es) = [] \<and>
   \<not> bannerShown (checker_run es)"
proof -
  assume small: "length (drugs (checker_run es)) < 2"
  with checked_needs_two [of es] have nc: "\<not> checked (checker_run es)" by auto
  then have "results (checker_run es) = None" by (rule results_unchecked)
  with small nc show ?thesis by (simp add: shownCards_def bannerShown_def)
qed

theorem no_check_below_two_drugs_witness:
  "drugs (checker_run [ClickCheck, ClickRemove ''Metformin'', ClickRemove ''Amlodipine'',
                       ClickRemove ''Pantoprazole'', ClickCheck]) = [''Atorvastatin''] \<and>
   results (checker_run [ClickCheck, ClickRemove ''Metformin'', ClickRemove ''Amlodipine'',
                         ClickRemove ''Pantoprazole'', ClickCheck]) = None \<and>
   \<not> bannerShown (checker_run [ClickCheck, ClickRemove ''Metformin'',
                     ClickRemove ''Amlodipine'', ClickRemove ''Pantoprazole'', ClickCheck])"
proof -
  let ?es = "[ClickCheck, ClickRemove ''Metformin'', ClickRemove ''Amlodipine'',
              ClickRemove ''Pantoprazole'', ClickCheck]"
  have d: "drugs (checker_run ?es) = [''Atorvastatin'']" by code_simp
  then have small: "length (drugs (checker_run ?es)) < 2" by simp
  from no_check_below_two_drugs [OF small] d show ?thesis by simp
qed

text \<open>
  Claim C6. The drug list has set semantics under equality of names: it never contains
  the same name twice in any state the page can reach, \<open>addDrug\<close> and \<open>removeDrug\<close> keep a
  duplicate-free list duplicate-free, and adding a name that is already present leaves
  the list unchanged.
\<close>

theorem drugs_no_duplicates:
  "distinct (drugs (checker_run es)) \<and>
   (distinct (drugs s) \<longrightarrow>
      distinct (drugs (addDrug n s)) \<and> distinct (drugs (removeDrug n s))) \<and>
   (n \<in> set (drugs s) \<longrightarrow> drugs (addDrug n s) = drugs s)"
  by (simp add: checker_run_distinct addDrug_def removeDrug_def)

theorem drugs_no_duplicates_witness:
  "distinct (drugs initial_checker) \<and> ''Amlodipine'' \<in> set (drugs initial_checker) \<and>
   drugs (addDrug ''Amlodipine'' initial_checker) = drugs initial_checker \<and>
   distinct (drugs (addDrug ''Aspirin'' initial_checker)) \<and>
   distinct (drugs (removeDrug ''Amlodipine'' initial_checker))"
proof -
  have d: "distinct (drugs initial_checker)" by (simp add: initial_checker_def)
  have m: "''Amlodipine'' \<in> set (drugs initial_checker)" by (simp add: initial_checker_def)
  from drugs_no_duplicates [of "[]" initial_checker "''Amlodipine''"] d m
  have a: "drugs (addDrug ''Amlodipine'' initial_checker) = drugs initial_checker"
    and r: "distinct (drugs (removeDrug ''Amlodipine'' initial_checker))"
    by blast+
  from drugs_no_duplicates [of "[]" initial_checker "''Aspirin''"] d
  have b: "distinct (drugs (addDrug ''Aspirin'' initial_checker))" by blast
  from d m a b r show ?thesis by (intro conjI)
qed

text \<open>
  Claim C7, as stated: names equal after trimming and case folding are one drug, so
  adding such a name creates no second entry. The page compares names exactly: with
  Metformin in the list, typing \<open>metformin\<close> (or Metformin followed by a space) and
  pressing Enter appends a second entry with the same key.
\<close>

theorem case_insensitive_key_counterexample:
  "spec_key ''metformin'' = spec_key ''Metformin'' \<and>
   spec_key ''Metformin '' = spec_key ''Metformin'' \<and>
   ''Metformin'' \<in> set (drugs initial_checker) \<and>
   drugs (checker_step (checker_step initial_checker (Change ''metformin'')) KeyEnter) =
     [''Metformin'', ''Amlodipine'', ''Pantoprazole'', ''Atorvastatin'', ''metformin''] \<and>
   drugs (checker_step (checker_step initial_checker (Change ''Metformin '')) KeyEnter) =
     [''Metformin'', ''Amlodipine'', ''Pantoprazole'', ''Atorvastatin'', ''Metformin '']"
  by code_simp

text \<open>
  Claim C7, amended. Names are keyed by exact string equality, with no case folding and
  no trimming: adding a name identical to one in the list leaves the list unchanged, and
  adding any other name, also one that differs from a listed name only in letter case or
  surrounding white space, appends it as a new entry.
\<close>

theorem addDrug_exact_match:
  "(n \<in> set (drugs s) \<longrightarrow> drugs (addDrug n s) = drugs s) \<and>
   (n \<notin> set (drugs s) \<longrightarrow> drugs (addDrug n s) = drugs s @ [n]) \<and>
   (m \<in> set (drugs s) \<and> n \<noteq> m \<and> spec_key n = spec_key m \<longrightarrow>
      m \<in> set (drugs (addDrug n s)) \<and> n \<in> set (drugs (addDrug n s)))"
  by (simp add: addDrug_def)

theorem addDrug_exact_match_witness:
  "''Metformin'' \<in> set (drugs initial_checker) \<and>
   drugs (addDrug ''Metformin'' initial_checker) = drugs initial_checker \<and>
   ''metformin'' \<notin> set (drugs initial_checker) \<and>
   drugs (addDrug ''metformin'' initial_checker) = drugs initial_checker @ [''metformin''] \<and>
   ''metformin'' \<noteq> ''Metformin'' \<and> spec_key ''metformin'' = spec_key ''Metformin'' \<and>
   ''Metformin'' \<in> set (drugs (addDrug ''metformin'' initial_checker)) \<and>
   ''metformin'' \<in> set (drugs (addDrug ''metformin'' initial_checker))"
proof -
  have m: "''Metformin'' \<in> set (drugs initial_checker)" by (simp add: initial_checker_def)
  have n: "''metformin'' \<notin> set (drugs initial_checker)" by (simp add: initial_checker_def)
  from addDrug_exact_match [of "''Metformin''" initial_checker] m
  have a: "drugs (addDrug ''Metformin'' initial_checker) = drugs initial_checker" by blast
  from addDrug_exact_match [of "''metformin''" initial_checker] n
  have b: "drugs (addDrug ''metformin'' initial_checker) = drugs initial_checker @ [''metformin'']"
    by blast
  have ne: "''metformin'' \<noteq> ''Metformin''" by simp
  have k: "spec_key ''metformin'' = spec_key ''Metformin''" by code_simp
  from addDrug_exact_match [of "''metformin''" initial_checker "''Metformin''"] m ne k
  have c: "''Metformin'' \<in> set (drugs (addDrug ''metformin'' initial_checker))"
    and d: "''metformin'' \<in> set (drugs (addDrug ''metformin'' initial_checker))"
    by blast+
  from m a n b ne k c d show ?thesis by (intro conjI)
qed

text \<open>
  Claim C8. Results are never shown for a modified drug list: \<open>addDrug\<close> and
  \<open>removeDrug\<close> reset \<open>checked\<close>, and in every state the page can reach in which results
  are shown, the drug list is the list as it was at the last press of the check button.
\<close>

theorem results_never_stale:
  "\<not> checked (addDrug n s) \<and> \<not> checked (removeDrug n s) \<and>
   results (addDrug n s) = None \<and> results (removeDrug n s) = None \<and>
   fst (logged_run es) = checker_run es \<and>
   (results (checker_run es) \<noteq> None \<longrightarrow>
      snd (logged_run es) = Some (drugs (checker_run es)))"
proof -
  have a: "\<not> checked (addDrug n s)" "\<not> checked (removeDrug n s)"
    by (simp_all add: addDrug_def removeDrug_def)
  then have b: "results (addDrug n s) = None" "results (removeDrug n s) = None"
    by (simp_all add: results_unchecked)
  have "results (checker_run es) \<noteq> None \<longrightarrow> checked (checker_run es)"
    by (simp add: results_def)
  with logged_run_inv [of es]
  have c: "fst (logged_run es) = checker_run es"
    "results (checker_run es) \<noteq> None \<longrightarrow> snd (logged_run es) = Some (drugs (checker_run es))"
    by blast+
  from a b c show ?thesis by (intro conjI)
qed

theorem results_never_stale_witness:
  "results (checker_run [ClickRemove ''Metformin'', ClickCheck]) \<noteq> None \<and>
   snd (logged_run [ClickRemove ''Metformin'', ClickCheck]) =
     Some [''Amlodipine'', ''Pantoprazole'', ''Atorvastatin''] \<and>
   drugs (checker_run [ClickRemove ''Metformin'', ClickCheck]) =
     [''Amlodipine'', ''Pantoprazole'', ''Atorvastatin''] \<and>
   results (checker_run [ClickRemove ''Metformin'', ClickCheck, ClickRemove ''Amlodipine'']) = None"
proof -
  let ?es = "[ClickRemove ''Metformin'', ClickCheck]"
  have c: "checked (checker_run ?es)" by code_simp
  then have r: "results (checker_run ?es) \<noteq> None" by (simp add: results_def)
  have d: "drugs (checker_run ?es) = [''Amlodipine'', ''Pantoprazole'', ''Atorvastatin'']"
    by code_simp
  from results_never_stale [of "''x''" initial_checker ?es] r
  have l: "snd (logged_run ?es) = Some (drugs (checker_run ?es))" by blast
  have n: "results (checker_run (?es @ [ClickRemove ''Amlodipine''])) = None"
    by code_simp
  from r l d n show ?thesis by simp
qed



section \<open>Properties of the multi-prescription page\<close>








lemma slotEntries_merge:
  "map (\<lambda>e. e\<lparr>flag := None\<rparr>) (slotEntries ''Morning'') = spec_merge PRESCRIPTIONS ''Morning''"
  "map (\<lambda>e. e\<lparr>flag := None\<rparr>) (slotEntries ''Night'') = spec_merge PRESCRIPTIONS ''Night''"
  by (simp_all add: slotEntries_def MERGED_SCHEDULE_def spec_merge_def PRESCRIPTIONS_def)

lemma slotEntries_shown:
  "map (\<lambda>e. (entry_name e, source e, conflictMarked e)) (slotEntries ''Morning'') =
     [(''Clopidogrel'', ''Dr. Ramesh Reddy'', False),
      (''Metformin'', ''Dr. Sunita Sharma'', False),
      (''Glimepiride'', ''Dr. Sunita Sharma'', False),
      (''Pantoprazole'', ''Dr. Sunita Sharma'', True)]"
  "map (\<lambda>e. (entry_name e, source e, conflictMarked e)) (slotEntries ''Night'') =
     [(''Amlodipine'', ''Dr. Ramesh Reddy'', False),
      (''Atorvastatin'', ''Dr. Ramesh Reddy'', False),
      (''Metformin'', ''Dr. Sunita Sharma'', False)]"
  by (simp_all add: slotEntries_def MERGED_SCHEDULE_def conflictMarked_def warning_sign_def)

lemma crossParticipants_demo: "crossParticipants = [''Clopidogrel'', ''Pantoprazole'']"
  by (simp add: crossParticipants_def CROSS_INTERACTIONS_def)

lemma merged_slot_names: "map fst (mergedSlots ''results'') = [''Morning'', ''Night'']"
  by (simp add: mergedSlots_def MERGED_SCHEDULE_def)

lemma merged_flags:
  "map conflictMarked (concat (map snd MERGED_SCHEDULE)) =
   map (\<lambda>e. entry_name e \<in> set (map cross_drug2 CROSS_INTERACTIONS))
     (concat (map snd MERGED_SCHEDULE))"
  by (simp add: MERGED_SCHEDULE_def conflictMarked_def warning_sign_def CROSS_INTERACTIONS_def)

text \<open>
  Claim C5, as stated: every entry whose drug participates in a cross-source interaction
  carries a conflict flag. Clopidogrel is the first drug of the cross-prescription
  interaction, and its entry, the first of the Morning bucket and its only one in the
  unified schedule, has no flag.
\<close>

theorem conflict_flag_counterexample:
  "''Clopidogrel'' \<in> set crossParticipants \<and>
   entry_name (hd (slotEntries ''Morning'')) = ''Clopidogrel'' \<and>
   source (hd (slotEntries ''Morning'')) = ''Dr. Ramesh Reddy'' \<and>
   flag (hd (slotEntries ''Morning'')) = None \<and>
   \<not> conflictMarked (hd (slotEntries ''Morning''))"
  by (simp add: crossParticipants_demo slotEntries_def MERGED_SCHEDULE_def conflictMarked_def)

text \<open>
  Claim C5, amended. The unified schedule has the buckets Morning and Night, and each
  holds one entry per drug and originating prescription of \<open>PRESCRIPTIONS\<close> assigned to
  that slot, in order, with the prescribing doctor as its source and no deduplication
  across prescriptions. An entry carries the conflict flag exactly when its drug is the
  second drug of a cross-prescription interaction: of the two participants, Pantoprazole's
  entry is flagged and Clopidogrel's is not. The Morning bucket contains both entries.
\<close>

theorem merged_schedule_entries_and_flags:
  "map fst (mergedSlots ''results'') = [''Morning'', ''Night''] \<and>
   map (\<lambda>e. e\<lparr>flag := None\<rparr>) (slotEntries ''Morning'') = spec_merge PRESCRIPTIONS ''Morning'' \<and>
   map (\<lambda>e. e\<lparr>flag := None\<rparr>) (slotEntries ''Night'') = spec_merge PRESCRIPTIONS ''Night'' \<and>
   map (\<lambda>e. (entry_name e, source e, conflictMarked e)) (slotEntries ''Morning'') =
     [(''Clopidogrel'', ''Dr. Ramesh Reddy'', False),
      (''Metformin'', ''Dr. Sunita Sharma'', False),
      (''Glimepiride'', ''Dr. Sunita Sharma'', False),
      (''Pantoprazole'', ''Dr. Sunita Sharma'', True)] \<and>
   map (\<lambda>e. (entry_name e, source e, conflictMarked e)) (slotEntries ''Night'') =
     [(''Amlodipine'', ''Dr. Ramesh Reddy'', False),
      (''Atorvastatin'', ''Dr. Ramesh Reddy'', False),
      (''Metformin'', ''Dr. Sunita Sharma'', False)] \<and>
   crossParticipants = [''Clopidogrel'', ''Pantoprazole''] \<and>
   map conflictMarked (concat (map snd MERGED_SCHEDULE)) =
     map (\<lambda>e. entry_name e \<in> set (map cross_drug2 CROSS_INTERACTIONS))
       (concat (map snd MERGED_SCHEDULE))"
  using merged_slot_names slotEntries_merge slotEntries_shown crossParticipants_demo
    merged_flags
  by (intro conjI)

end
